theory Spec2Isabelle
  imports Complex_Main
begin

section \<open>Numbers and tensor operations\<close>

text \<open>
  The handlers of \<^verbatim>\<open>backend/main.py\<close> compute with torch tensors of floats. The model
  computes with exact real numbers instead of rounded ones, and keeps the one special
  value the handlers can produce from finite inputs: \<open>NaN\<close>, the result of \<open>0 / 0\<close>.
  A tensor of shape \<open>[n, d]\<close> is a list of \<open>n\<close> rows.
\<close>

datatype flt = Num real | NaN

fun flt_add :: "flt \<Rightarrow> flt \<Rightarrow> flt" where
  "flt_add (Num a) (Num b) = Num (a + b)"
| "flt_add _ _ = NaN"

fun flt_mul :: "flt \<Rightarrow> flt \<Rightarrow> flt" where
  "flt_mul (Num a) (Num b) = Num (a * b)"
| "flt_mul _ _ = NaN"

text \<open>
  Division by zero does not raise on tensors. The only divisions by zero the handlers
  can perform are \<open>0 / 0\<close>: a norm is zero only when every entry is zero (lemma
  \<open>l2_norm_eq_0_iff\<close> below), and the sum of exponentials of a non-empty row is
  positive. So the quotient by zero is \<open>NaN\<close>.
\<close>

fun flt_div :: "flt \<Rightarrow> flt \<Rightarrow> flt" where
  "flt_div (Num a) (Num b) = (if b = 0 then NaN else Num (a / b))"
| "flt_div _ _ = NaN"

fun flt_exp :: "flt \<Rightarrow> flt" where
  "flt_exp (Num a) = Num (exp a)"
| "flt_exp NaN = NaN"

fun flt_sum :: "flt list \<Rightarrow> flt" where
  "flt_sum [] = Num 0"
| "flt_sum (x # xs) = flt_add x (flt_sum xs)"

text \<open>\<^verbatim>\<open>x.norm(dim=-1, keepdim=True)\<close> on one row: the square root of the sum of squares.\<close>

definition l2_norm :: "real list \<Rightarrow> real" where
  "l2_norm v = sqrt (sum_list (map (\<lambda>x. x\<^sup>2) v))"

text \<open>\<^verbatim>\<open>x / x.norm(dim=-1, keepdim=True)\<close>: every entry of a row divided by the row's norm.\<close>

definition normalize_row :: "real list \<Rightarrow> flt list" where
  "normalize_row v = map (\<lambda>x. flt_div (Num x) (Num (l2_norm v))) v"

definition normalize_rows :: "real list list \<Rightarrow> flt list list" where
  "normalize_rows rows = map normalize_row rows"

text \<open>\<^verbatim>\<open>c * x\<close> for a Python float \<open>c\<close> and a tensor \<open>x\<close>.\<close>

definition scale :: "real \<Rightarrow> flt list list \<Rightarrow> flt list list" where
  "scale c rows = map (map (flt_mul (Num c))) rows"

definition dot :: "flt list \<Rightarrow> flt list \<Rightarrow> flt" where
  "dot u v = flt_sum (map2 flt_mul u v)"

datatype exn =
    UnidentifiedImageError
  | JSONDecodeError
  | TypeError
  | ValidationError
  | RuntimeError
  | IndexError
  | ValueError
  | NameError
  | AttributeError

text \<open>
  \<^verbatim>\<open>a @ b.T\<close> for \<open>a\<close> of shape \<open>[m, d]\<close> and \<open>b\<close> of shape \<open>[n, d']\<close>: entry \<open>(i, j)\<close> is
  the dot product of row \<open>i\<close> of \<open>a\<close> and row \<open>j\<close> of \<open>b\<close>. torch raises a
  RuntimeError when the inner dimensions differ.
\<close>

definition matmul_T :: "flt list list \<Rightarrow> flt list list \<Rightarrow> exn + flt list list" where
  "matmul_T a b =
     (if \<forall>u \<in> set a. \<forall>v \<in> set b. length u = length v
      then Inr (map (\<lambda>u. map (\<lambda>v. dot u v) b) a)
      else Inl RuntimeError)"

text \<open>
  \<^verbatim>\<open>x.softmax(dim=-1)\<close> on one row: each exponential divided by the sum of the
  exponentials of the row. An empty row stays empty.
\<close>

definition softmax_row :: "flt list \<Rightarrow> flt list" where
  "softmax_row xs =
     (let es = map flt_exp xs; s = flt_sum es in map (\<lambda>e. flt_div e s) es)"

definition softmax :: "flt list list \<Rightarrow> flt list list" where
  "softmax rows = map softmax_row rows"

text \<open>\<^verbatim>\<open>t[0]\<close>: the first row; an IndexError when there is none.\<close>

definition first_row :: "'a list \<Rightarrow> exn + 'a" where
  "first_row rows = (case rows of [] \<Rightarrow> Inl IndexError | r # _ \<Rightarrow> Inr r)"


section \<open>Library functions the handlers call\<close>

text \<open>
  The result of \<^verbatim>\<open>json.loads\<close>: a JSON object is a Python dict, read with \<open>map_of\<close>.
\<close>

datatype json =
    JNull
  | JBool bool
  | JNumber real
  | JString string
  | JArray "json list"
  | JObject "(string \<times> json) list"

type_synonym bytes = "char list"

text \<open>
  \<^verbatim>\<open>Image.open\<close> and \<^verbatim>\<open>json.loads\<close> are library parsers: each returns a value or
  raises. \<open>'img\<close> is the type of PIL images.
\<close>

record 'img libs =
  Image_open :: "bytes \<Rightarrow> exn + 'img"
  json_loads :: "string \<Rightarrow> exn + json"

subsection \<open>The request schema\<close>

text \<open>
  \<^verbatim>\<open>class TextInput(BaseModel): text_list: List[str]\<close>
\<close>

record TextInput =
  text_list :: "string list"

text \<open>
  Validation of a \<^verbatim>\<open>List[str]\<close> field: the value must be a list and every element a
  string, which is kept as it is (pydantic 2 converts no other JSON value to a string).
\<close>

fun str_list :: "json list \<Rightarrow> string list option" where
  "str_list [] = Some []"
| "str_list (JString s # js) = map_option ((#) s) (str_list js)"
| "str_list (_ # js) = None"

text \<open>
  Validation of a dict against the schema: the field \<^verbatim>\<open>text_list\<close> is required and must
  be a list of strings; other keys are ignored.
\<close>

definition validate_TextInput :: "(string \<times> json) list \<Rightarrow> TextInput option" where
  "validate_TextInput kvs =
     (case map_of kvs ''text_list'' of
        Some (JArray js) \<Rightarrow> map_option (\<lambda>xs. \<lparr>text_list = xs\<rparr>) (str_list js)
      | _ \<Rightarrow> None)"

text \<open>
  \<^verbatim>\<open>TextInput(**d)\<close>: unpacking a value that is not a dict raises TypeError; a dict
  that does not fit the schema raises pydantic's ValidationError.
\<close>

definition TextInput_init :: "json \<Rightarrow> exn + TextInput" where
  "TextInput_init d =
     (case d of
        JObject kvs \<Rightarrow>
          (case validate_TextInput kvs of Some t \<Rightarrow> Inr t | None \<Rightarrow> Inl ValidationError)
      | _ \<Rightarrow> Inl TypeError)"

section \<open>Module globals\<close>

text \<open>
  Lines 22 to 26 of \<^verbatim>\<open>main.py\<close> bind four module-level names once, when the module is
  imported: \<^verbatim>\<open>model\<close>, \<^verbatim>\<open>preprocess_val\<close>, \<^verbatim>\<open>tokenizer\<close> and \<^verbatim>\<open>device\<close>.
  The pretrained model is used through its two encoders. An encoder maps a batch to one
  row of real numbers per item of the batch, so it is given by what it does on one item;
  so is the tokenizer. \<open>'pix\<close> is the type of preprocessed images, \<open>'tok\<close> the type of
  token rows. The encoders and the tokenizer are taken to return for every batch; whether
  the library accepts an empty batch is not part of the model.
\<close>

record ('img, 'pix, 'tok) globals =
  model_encode_image :: "'pix \<Rightarrow> real list"
  model_encode_text :: "'tok \<Rightarrow> real list"
  preprocess_val :: "'img \<Rightarrow> exn + 'pix"
  tokenizer :: "string \<Rightarrow> 'tok"
  device :: string




section \<open>The three handlers\<close>

text \<open>
  The handlers have no \<^verbatim>\<open>try\<close>: an exception of a library call leaves the handler.
  The context managers \<^verbatim>\<open>torch.inference_mode()\<close> and \<^verbatim>\<open>torch.autocast(...)\<close> around
  the encoder calls select how the encoders compute; they are part of the encoders here.
\<close>

text \<open>The dict a handler returns.\<close>

datatype content =
    Features "flt list list"
  | Similarity "flt list" "string list"

text \<open>
  \<^verbatim>\<open>encode_image\<close> (lines 31 to 44): open the upload, preprocess it, add the batch
  dimension, encode, normalize.
\<close>

definition encode_image ::
  "'img libs \<Rightarrow> ('img, 'pix, 'tok) globals \<Rightarrow> bytes \<Rightarrow> exn + content" where
  "encode_image L g image_data =
     (case Image_open L image_data of
        Inl e \<Rightarrow> Inl e
      | Inr img \<Rightarrow>
          (case preprocess_val g img of
             Inl e \<Rightarrow> Inl e
           | Inr pix \<Rightarrow>
               (let processed_image = [pix];
                    image_features = map (model_encode_image g) processed_image;
                    image_features = normalize_rows image_features
                in Inr (Features image_features))))"

text \<open>\<^verbatim>\<open>encode_text\<close> (lines 46 to 55): tokenize, encode, normalize.\<close>

definition encode_text :: "('img, 'pix, 'tok) globals \<Rightarrow> TextInput \<Rightarrow> exn + content" where
  "encode_text g text_input =
     (let text = map (tokenizer g) (text_list text_input);
          text_features = map (model_encode_text g) text;
          text_features = normalize_rows text_features
      in Inr (Features text_features))"

text \<open>
  \<^verbatim>\<open>compute_similarity\<close> (lines 57 to 88): the form field is parsed and validated first,
  then the image is opened; both feature tensors are normalized, and the softmax is taken
  over \<^verbatim>\<open>100.0 * image_features @ text_features.T\<close>, which Python reads as
  \<^verbatim>\<open>(100.0 * image_features) @ text_features.T\<close>.
\<close>

definition compute_similarity ::
  "'img libs \<Rightarrow> ('img, 'pix, 'tok) globals \<Rightarrow> bytes \<Rightarrow> string \<Rightarrow> exn + content" where
  "compute_similarity L g image_data text_input =
     (case json_loads L text_input of
        Inl e \<Rightarrow> Inl e
      | Inr text_input_dict \<Rightarrow>
     (case TextInput_init text_input_dict of
        Inl e \<Rightarrow> Inl e
      | Inr text_input_obj \<Rightarrow>
     (case Image_open L image_data of
        Inl e \<Rightarrow> Inl e
      | Inr img \<Rightarrow>
     (case preprocess_val g img of
        Inl e \<Rightarrow> Inl e
      | Inr pix \<Rightarrow>
     (let processed_image = [pix];
          text = map (tokenizer g) (text_list text_input_obj);
          image_features = map (model_encode_image g) processed_image;
          text_features = map (model_encode_text g) text;
          image_features = normalize_rows image_features;
          text_features = normalize_rows text_features
      in case matmul_T (scale 100 image_features) text_features of
           Inl e \<Rightarrow> Inl e
         | Inr logits \<Rightarrow>
             (case first_row (softmax logits) of
                Inl e \<Rightarrow> Inl e
              | Inr probs \<Rightarrow> Inr (Similarity probs (text_list text_input_obj))))))))"

section \<open>The application\<close>

text \<open>
  The three \<^verbatim>\<open>@app.post(...)\<close> decorators register one route each. FastAPI extracts
  the declared parameters from the request before it calls the handler, and turns what
  the handler returns or raises into a response.
\<close>

datatype http_method = GET | POST | PUT | PATCH | DELETE | HEAD | OPTIONS

datatype part = UploadFile bytes | FormField string

datatype payload = Multipart "(string \<times> part) list" | Body string

record request =
  req_method :: http_method
  req_path :: string
  req_payload :: payload

datatype endpoint = Encode_image | Encode_text | Compute_similarity

definition routes :: "((http_method \<times> string) \<times> endpoint) list" where
  "routes =
     [((POST, ''/encode_image/''), Encode_image),
      ((POST, ''/encode_text/''), Encode_text),
      ((POST, ''/compute_similarity/''), Compute_similarity)]"

datatype response = HTTP_200 content | HTTP_422 | HTTP_500 exn

definition status_code :: "response \<Rightarrow> nat" where
  "status_code r = (case r of HTTP_200 _ \<Rightarrow> 200 | HTTP_422 \<Rightarrow> 422 | HTTP_500 _ \<Rightarrow> 500)"

text \<open>\<^verbatim>\<open>file: UploadFile = File(...)\<close>: a required file part named \<^verbatim>\<open>file\<close>.\<close>

definition file_param :: "payload \<Rightarrow> bytes option" where
  "file_param p =
     (case p of
        Multipart fs \<Rightarrow> (case map_of fs ''file'' of Some (UploadFile b) \<Rightarrow> Some b | _ \<Rightarrow> None)
      | Body _ \<Rightarrow> None)"

text \<open>\<^verbatim>\<open>text_input: str = Form(...)\<close>: a required form field named \<^verbatim>\<open>text_input\<close>.\<close>

definition form_param :: "payload \<Rightarrow> string option" where
  "form_param p =
     (case p of
        Multipart fs \<Rightarrow>
          (case map_of fs ''text_input'' of Some (FormField s) \<Rightarrow> Some s | _ \<Rightarrow> None)
      | Body _ \<Rightarrow> None)"

text \<open>
  \<^verbatim>\<open>text_input: TextInput\<close>: the request body, parsed as JSON and validated against
  the schema.
\<close>

definition body_param :: "'img libs \<Rightarrow> payload \<Rightarrow> TextInput option" where
  "body_param L p =
     (case p of
        Body s \<Rightarrow>
          (case json_loads L s of Inr (JObject kvs) \<Rightarrow> validate_TextInput kvs | _ \<Rightarrow> None)
      | Multipart _ \<Rightarrow> None)"

text \<open>
  The default response class serializes the returned dict with
  \<^verbatim>\<open>json.dumps(content, allow_nan=False, ...)\<close>, which raises ValueError on a float
  that is not finite.
\<close>

definition json_compliant :: "content \<Rightarrow> bool" where
  "json_compliant c =
     (case c of
        Features rows \<Rightarrow> (\<forall>row \<in> set rows. NaN \<notin> set row)
      | Similarity probs _ \<Rightarrow> NaN \<notin> set probs)"

text \<open>An exception that leaves the handler, or the serializer, becomes a 500 response.\<close>

definition respond :: "exn + content \<Rightarrow> response" where
  "respond r =
     (case r of
        Inl e \<Rightarrow> HTTP_500 e
      | Inr c \<Rightarrow> if json_compliant c then HTTP_200 c else HTTP_500 ValueError)"

text \<open>A request whose declared parameters cannot be extracted is answered with 422.\<close>

definition call_endpoint ::
  "'img libs \<Rightarrow> ('img, 'pix, 'tok) globals \<Rightarrow> endpoint \<Rightarrow> payload \<Rightarrow> response" where
  "call_endpoint L g ep p =
     (case ep of
        Encode_image \<Rightarrow>
          (case file_param p of
             None \<Rightarrow> HTTP_422
           | Some file \<Rightarrow> respond (encode_image L g file))
      | Encode_text \<Rightarrow>
          (case body_param L p of
             None \<Rightarrow> HTTP_422
           | Some text_input \<Rightarrow> respond (encode_text g text_input))
      | Compute_similarity \<Rightarrow>
          (case file_param p of
             None \<Rightarrow> HTTP_422
           | Some file \<Rightarrow>
               (case form_param p of
                  None \<Rightarrow> HTTP_422
                | Some text_input \<Rightarrow> respond (compute_similarity L g file text_input))))"

text \<open>\<open>None\<close>: the request matches none of the routes of \<^verbatim>\<open>main.py\<close>.\<close>

definition app ::
  "'img libs \<Rightarrow> ('img, 'pix, 'tok) globals \<Rightarrow> request \<Rightarrow> response option" where
  "app L g r =
     map_option (\<lambda>ep. call_endpoint L g ep (req_payload r))
       (map_of routes (req_method r, req_path r))"

section \<open>The handlers as transformers of the interpreter state\<close>


















section \<open>Cosine similarity\<close>


section \<open>A small instance\<close>

text \<open>
  An instance of the libraries and of the model on which the application can be run:
  an upload is an image unless it is empty, three request texts are known to the JSON
  parser, and the encoders return vectors of dimension two.
\<close>

definition example_libs :: "bytes libs" where
  \<open>example_libs =
     \<lparr>Image_open = (\<lambda>b. if b = [] then Inl UnidentifiedImageError else Inr b),
      json_loads = (\<lambda>s.
        if s = ''{"text_list": ["a", "b"]}''
          then Inr (JObject [(''text_list'', JArray [JString ''a'', JString ''b''])])
        else if s = ''{"text_list": []}'' then Inr (JObject [(''text_list'', JArray [])])
        else if s = ''{}'' then Inr (JObject [])
        else Inl JSONDecodeError)\<rparr>\<close>

definition example_globals :: "(bytes, bytes, string) globals" where
  "example_globals =
     \<lparr>model_encode_image = (\<lambda>pix. [real (length pix), 4]),
      model_encode_text = (\<lambda>tok. if tok = ''a'' then [1, 0] else [0, 2]),
      preprocess_val = Inr,
      tokenizer = (\<lambda>s. s),
      device = ''cpu''\<rparr>"

definition example_image_request :: request where
  "example_image_request =
     \<lparr>req_method = POST, req_path = ''/encode_image/'',
      req_payload = Multipart [(''file'', UploadFile ''abc'')]\<rparr>"

definition example_similarity_request :: request where
  \<open>example_similarity_request =
     \<lparr>req_method = POST, req_path = ''/compute_similarity/'',
      req_payload = Multipart [(''file'', UploadFile ''abc''),
                               (''text_input'', FormField ''{"text_list": ["a", "b"]}'')]\<rparr>\<close>

definition example_bad_image_request :: request where
  "example_bad_image_request =
     \<lparr>req_method = POST, req_path = ''/encode_image/'',
      req_payload = Multipart [(''file'', UploadFile [])]\<rparr>"

definition example_bad_json_payload :: payload where
  "example_bad_json_payload =
     Multipart [(''file'', UploadFile ''abc''), (''text_input'', FormField ''text_list'')]"

definition example_missing_key_payload :: payload where
  "example_missing_key_payload =
     Multipart [(''file'', UploadFile ''abc''), (''text_input'', FormField ''{}'')]"

definition example_bad_body_payload :: payload where
  "example_bad_body_payload = Body ''{}''"

text \<open>The same instance with encoders that return the zero vector.\<close>

definition zero_globals :: "(bytes, bytes, string) globals" where
  "zero_globals =
     example_globals\<lparr>model_encode_image := (\<lambda>pix. [0, 0]), model_encode_text := (\<lambda>tok. [0, 0])\<rparr>"


section \<open>Facts about the tensor operations\<close>

subsection \<open>Norm and normalization\<close>

lemma sum_list_sq_nonneg: "0 \<le> sum_list (map (\<lambda>x. x\<^sup>2) (v::real list))"
  by (induction v) auto

lemma sum_list_sq_eq_0_iff: "sum_list (map (\<lambda>x. x\<^sup>2) (v::real list)) = 0 \<longleftrightarrow> (\<forall>x \<in> set v. x = 0)"
proof (induction v)
  case Nil
  show ?case by simp
next
  case (Cons a v)
  have "a\<^sup>2 + sum_list (map (\<lambda>x. x\<^sup>2) v) = 0 \<longleftrightarrow> a\<^sup>2 = 0 \<and> sum_list (map (\<lambda>x. x\<^sup>2) v) = 0"
    using sum_list_sq_nonneg [of v] by (intro add_nonneg_eq_0_iff) simp_all
  with Cons show ?case by simp
qed

lemma l2_norm_eq_0_iff: "l2_norm v = 0 \<longleftrightarrow> (\<forall>x \<in> set v. x = 0)"
  by (simp add: l2_norm_def sum_list_sq_eq_0_iff)



lemma normalize_row_Num:
  "l2_norm v \<noteq> 0 \<Longrightarrow> normalize_row v = map Num (map (\<lambda>x. x / l2_norm v) v)"
  by (simp add: normalize_row_def)

lemma normalize_row_zero:
  "l2_norm v = 0 \<Longrightarrow> normalize_row v = replicate (length v) NaN"
  by (simp add: normalize_row_def map_replicate_const)

lemma NaN_in_normalize_row: "NaN \<in> set (normalize_row v) \<longleftrightarrow> v \<noteq> [] \<and> l2_norm v = 0"
  by (cases "l2_norm v = 0") (auto simp: normalize_row_zero normalize_row_Num)

lemma length_normalize_row: "length (normalize_row v) = length v"
  by (simp add: normalize_row_def)




lemma flt_add_NaN_right: "flt_add x NaN = NaN"
  by (cases x) simp_all

lemma flt_sum_NaN: "NaN \<in> set xs \<Longrightarrow> flt_sum xs = NaN"
  by (induction xs) (auto simp: flt_add_NaN_right)




lemma length_softmax_row: "length (softmax_row xs) = length xs"
  by (simp add: softmax_row_def Let_def)



subsection \<open>Dot products\<close>











section \<open>Facts about the handlers and the application\<close>

lemma respond_200_iff: "respond x = HTTP_200 c \<longleftrightarrow> x = Inr c \<and> json_compliant c"
  by (auto simp: respond_def split: sum.splits)

lemma respond_not_422: "respond x \<noteq> HTTP_422"
  by (simp add: respond_def split: sum.splits)

lemma map_of_routes:
  "map_of routes (m, p) = Some ep \<longleftrightarrow>
     m = POST \<and>
     (p = ''/encode_image/'' \<and> ep = Encode_image \<or>
      p = ''/encode_text/'' \<and> ep = Encode_text \<or>
      p = ''/compute_similarity/'' \<and> ep = Compute_similarity)"
  by (auto simp: routes_def)

lemma app_Some_iff:
  "app L g r = Some resp \<longleftrightarrow>
     (\<exists>ep. map_of routes (req_method r, req_path r) = Some ep \<and>
           resp = call_endpoint L g ep (req_payload r))"
  by (auto simp: app_def)

lemma encode_image_Inr:
  "encode_image L g b = Inr c \<longleftrightarrow>
     (\<exists>img pix. Image_open L b = Inr img \<and> preprocess_val g img = Inr pix \<and>
        c = Features (normalize_rows [model_encode_image g pix]))"
  by (auto simp: encode_image_def Let_def split: sum.splits)

lemma encode_text_Inr:
  "encode_text g t = Inr (Features (normalize_rows (map (\<lambda>s. model_encode_text g (tokenizer g s)) (text_list t))))"
  by (simp add: encode_text_def Let_def o_def)

lemma compute_similarity_Inr:
  "compute_similarity L g b s = Inr c \<longleftrightarrow>
     (\<exists>j t img pix.
        json_loads L s = Inr j \<and> TextInput_init j = Inr t \<and>
        Image_open L b = Inr img \<and> preprocess_val g img = Inr pix \<and>
        (\<forall>x \<in> set (text_list t).
           length (model_encode_text g (tokenizer g x)) = length (model_encode_image g pix)) \<and>
        c = Similarity
              (softmax_row
                 (map (dot (map (flt_mul (Num 100)) (normalize_row (model_encode_image g pix))))
                    (normalize_rows (map (\<lambda>x. model_encode_text g (tokenizer g x)) (text_list t)))))
              (text_list t))"
  by (auto simp: compute_similarity_def Let_def matmul_T_def scale_def softmax_def first_row_def
      normalize_rows_def length_normalize_row o_def split: sum.splits)


lemma str_list_Some_iff: "str_list js = Some xs \<longleftrightarrow> js = map JString xs"
  by (induction js arbitrary: xs rule: str_list.induct) auto

lemma TextInput_init_Inr:
  "TextInput_init j = Inr t \<longleftrightarrow>
     (\<exists>kvs. j = JObject kvs \<and> map_of kvs ''text_list'' = Some (JArray (map JString (text_list t))))"
proof -
  have inj: "map JString z = map JString xs \<longleftrightarrow> z = xs" for z xs
    by (rule inj_map_eq_map) (simp add: inj_def)
  have same: "str_list (map JString xs) = Some xs" for xs
    by (simp add: str_list_Some_iff)
  show ?thesis
    by (cases t)
      (auto simp: TextInput_init_def validate_TextInput_def str_list_Some_iff inj same
        split: json.splits option.splits)
qed

lemma call_endpoint_Similarity:
  assumes "call_endpoint L g ep p = HTTP_200 (Similarity P labels)"
  shows "NaN \<notin> set P \<and>
         (\<exists>b s j t img pix.
            ep = Compute_similarity \<and> file_param p = Some b \<and> form_param p = Some s \<and>
            json_loads L s = Inr j \<and> TextInput_init j = Inr t \<and> labels = text_list t \<and>
            Image_open L b = Inr img \<and> preprocess_val g img = Inr pix \<and>
            (\<forall>x \<in> set labels.
               length (model_encode_text g (tokenizer g x)) = length (model_encode_image g pix)) \<and>
            P = softmax_row
                  (map (dot (map (flt_mul (Num 100)) (normalize_row (model_encode_image g pix))))
                     (normalize_rows (map (\<lambda>x. model_encode_text g (tokenizer g x)) labels))))"
proof (cases ep)
  case Encode_image
  with assms show ?thesis
    by (auto simp: call_endpoint_def respond_200_iff encode_image_Inr split: option.splits)
next
  case Encode_text
  with assms show ?thesis
    by (auto simp: call_endpoint_def respond_200_iff encode_text_Inr split: option.splits)
next
  case Compute_similarity
  with assms obtain b s where bs: "file_param p = Some b" "form_param p = Some s"
    and r: "respond (compute_similarity L g b s) = HTTP_200 (Similarity P labels)"
    by (auto simp: call_endpoint_def split: option.splits)
  from r have c: "compute_similarity L g b s = Inr (Similarity P labels)"
    and j: "json_compliant (Similarity P labels)"
    by (simp_all add: respond_200_iff)
  from j have "NaN \<notin> set P" by (simp add: json_compliant_def)
  moreover from c bs Compute_similarity have "\<exists>b s j t img pix.
            ep = Compute_similarity \<and> file_param p = Some b \<and> form_param p = Some s \<and>
            json_loads L s = Inr j \<and> TextInput_init j = Inr t \<and> labels = text_list t \<and>
            Image_open L b = Inr img \<and> preprocess_val g img = Inr pix \<and>
            (\<forall>x \<in> set labels.
               length (model_encode_text g (tokenizer g x)) = length (model_encode_image g pix)) \<and>
            P = softmax_row
                  (map (dot (map (flt_mul (Num 100)) (normalize_row (model_encode_image g pix))))
                     (normalize_rows (map (\<lambda>x. model_encode_text g (tokenizer g x)) labels)))"
    unfolding compute_similarity_Inr by blast
  ultimately show ?thesis by blast
qed



lemma respond_Inl: "respond (Inl e) = HTTP_500 e"
  by (simp add: respond_def)

lemma file_param_Some_Multipart: "file_param p = Some b \<Longrightarrow> \<exists>fs. p = Multipart fs"
  by (cases p) (simp_all add: file_param_def)

lemma body_param_Multipart: "body_param L (Multipart fs) = None"
  by (simp add: body_param_def)

lemma body_param_None_iff:
  "body_param L (Body s) = None \<longleftrightarrow>
     \<not> (\<exists>kvs t. json_loads L s = Inr (JObject kvs) \<and> validate_TextInput kvs = Some t)"
  by (auto simp: body_param_def split: sum.splits json.splits)

lemma validate_TextInput_missing:
  "map_of kvs ''text_list'' = None \<Longrightarrow> validate_TextInput kvs = None"
  by (simp add: validate_TextInput_def)

lemma encode_image_unparseable:
  assumes "(\<exists>e. Image_open L b = Inl e) \<or>
           (\<exists>img e. Image_open L b = Inr img \<and> preprocess_val g img = Inl e)"
  shows "\<exists>e. encode_image L g b = Inl e"
  using assms by (auto simp: encode_image_def)

lemma compute_similarity_unparseable_image:
  assumes "(\<exists>e. Image_open L b = Inl e) \<or>
           (\<exists>img e. Image_open L b = Inr img \<and> preprocess_val g img = Inl e)"
  shows "\<exists>e. compute_similarity L g b s = Inl e"
  using assms by (auto simp: compute_similarity_def split: sum.splits)

lemma compute_similarity_unparseable_json:
  "json_loads L s = Inl e \<Longrightarrow> compute_similarity L g b s = Inl e"
  by (simp add: compute_similarity_def)

lemma call_endpoint_200:
  assumes "call_endpoint L g ep p = HTTP_200 c"
  shows "(ep = Encode_image \<and> (\<exists>b. file_param p = Some b) \<and> (\<exists>F. c = Features F)) \<or>
         (ep = Encode_text \<and> (\<exists>t. body_param L p = Some t) \<and> (\<exists>F. c = Features F)) \<or>
         (ep = Compute_similarity \<and> (\<exists>b. file_param p = Some b) \<and>
            (\<exists>s. form_param p = Some s) \<and> (\<exists>P labels. c = Similarity P labels))"
proof (cases ep)
  case Encode_image
  with assms show ?thesis
    by (auto simp: call_endpoint_def respond_200_iff encode_image_Inr split: option.splits)
next
  case Encode_text
  with assms show ?thesis
    by (auto simp: call_endpoint_def respond_200_iff encode_text_Inr split: option.splits)
next
  case Compute_similarity
  with assms show ?thesis
    by (auto simp: call_endpoint_def respond_200_iff compute_similarity_Inr split: option.splits)
qed

subsection \<open>The handlers on the interpreter state\<close>


















subsection \<open>Zero vectors\<close>

lemma softmax_row_NaN:
  assumes "NaN \<in> set xs"
  shows "softmax_row xs = replicate (length xs) NaN"
proof -
  from assms have "NaN \<in> set (map flt_exp xs)" by force
  then have s: "flt_sum (map flt_exp xs) = NaN" by (rule flt_sum_NaN)
  have "flt_div e NaN = NaN" for e by (cases e) simp_all
  then show ?thesis
    unfolding softmax_row_def Let_def s by (simp add: map_replicate_const o_def)
qed

lemma dot_NaN_left:
  assumes "u \<noteq> []" and "length u = length v" and "\<forall>x \<in> set u. x = NaN"
  shows "dot u v = NaN"
proof -
  from assms obtain x xs y ys where "u = x # xs" "v = y # ys" "x = NaN"
    by (cases u; cases v) auto
  then show ?thesis by (simp add: dot_def)
qed

lemma normalize_row_all_zero:
  "\<forall>x \<in> set v. x = 0 \<Longrightarrow> normalize_row v = replicate (length v) NaN"
  by (simp add: normalize_row_zero l2_norm_eq_0_iff)

lemma NaN_in_normalize_row_iff_zero:
  "NaN \<in> set (normalize_row v) \<longleftrightarrow> v \<noteq> [] \<and> (\<forall>x \<in> set v. x = 0)"
  by (simp add: NaN_in_normalize_row l2_norm_eq_0_iff)

lemma compute_similarity_zero_image:
  assumes parsed: "json_loads L s = Inr j" "TextInput_init j = Inr t"
    and opened: "Image_open L b = Inr img" "preprocess_val g img = Inr pix"
    and dims: "\<forall>x \<in> set (text_list t).
        length (model_encode_text g (tokenizer g x)) = length (model_encode_image g pix)"
    and ne: "model_encode_image g pix \<noteq> []"
    and zero: "\<forall>x \<in> set (model_encode_image g pix). x = 0"
  shows "compute_similarity L g b s =
           Inr (Similarity (replicate (length (text_list t)) NaN) (text_list t))"
proof -
  let ?u = "map (flt_mul (Num 100)) (normalize_row (model_encode_image g pix))"
  let ?vs = "normalize_rows (map (\<lambda>x. model_encode_text g (tokenizer g x)) (text_list t))"
  have u: "?u \<noteq> []" "\<forall>x \<in> set ?u. x = NaN"
    using ne by (simp_all add: normalize_row_all_zero [OF zero])
  have "dot ?u v = NaN" if "v \<in> set ?vs" for v
  proof -
    from that dims have "length ?u = length v"
      by (auto simp: normalize_rows_def length_normalize_row)
    with u show ?thesis by (intro dot_NaN_left)
  qed
  then have "map (dot ?u) ?vs = replicate (length ?vs) NaN"
    by (simp add: map_replicate_const [symmetric] del: map_replicate_const)
  moreover have "length ?vs = length (text_list t)" by (simp add: normalize_rows_def)
  ultimately have logits: "map (dot ?u) ?vs = replicate (length (text_list t)) NaN" by simp
  have "softmax_row (map (dot ?u) ?vs) = replicate (length (text_list t)) NaN"
  proof (cases "text_list t = []")
    case True
    then show ?thesis by (simp add: normalize_rows_def softmax_row_def)
  next
    case False
    then have "NaN \<in> set (replicate (length (text_list t)) NaN)" by simp
    from softmax_row_NaN [OF this] show ?thesis unfolding logits by simp
  qed
  then show ?thesis
    unfolding compute_similarity_Inr using parsed opened dims by simp
qed

section \<open>The instance, evaluated\<close>

lemma sqrt_25: "sqrt 25 = 5"
  by (rule real_sqrt_unique) simp_all

lemma exp_sum_nonzero: "exp a + exp b \<noteq> (0::real)"
  using exp_gt_zero [of a] exp_gt_zero [of b] by linarith

lemmas example_defs =
  app_def routes_def call_endpoint_def file_param_def form_param_def body_param_def
  example_libs_def example_globals_def respond_def json_compliant_def
  validate_TextInput_def TextInput_init_def

lemma example_image_response:
  "app example_libs example_globals example_image_request =
     Some (HTTP_200 (Features [[Num (3 / 5), Num (4 / 5)]]))"
  by (simp add: example_defs example_image_request_def encode_image_def normalize_rows_def
      normalize_row_def l2_norm_def sqrt_25)

lemma example_similarity_response:
  "\<exists>P. app example_libs example_globals example_similarity_request =
     Some (HTTP_200 (Similarity P [''a'', ''b'']))"
  by (simp add: example_defs example_similarity_request_def compute_similarity_def
      normalize_rows_def normalize_row_def l2_norm_def sqrt_25 scale_def matmul_T_def dot_def
      softmax_def softmax_row_def first_row_def exp_sum_nonzero Let_def)

section \<open>The claims\<close>

subsection \<open>C1: returned feature vectors are unit-normalized\<close>



subsection \<open>C2: the probabilities are a softmax and sum to 1\<close>



subsection \<open>C3: malformed input yields an error response\<close>

text \<open>
  Claim C3. A routed request whose uploaded file cannot be opened or decoded as an image,
  or a request to \<^verbatim>\<open>/compute_similarity/\<close> whose \<^verbatim>\<open>text_input\<close> field is not parseable
  JSON, is answered with an error response (status 422 or 500) and never with a 200
  response, so no \<^verbatim>\<open>features\<close> or \<^verbatim>\<open>probabilities\<close> value is returned.
\<close>

theorem malformed_input_error_response:
  assumes routed: "app L g r = Some resp"
    and malformed:
      "(\<exists>b. file_param (req_payload r) = Some b \<and>
            ((\<exists>e. Image_open L b = Inl e) \<or>
             (\<exists>img e. Image_open L b = Inr img \<and> preprocess_val g img = Inl e))) \<or>
       (req_path r = ''/compute_similarity/'' \<and>
        (\<exists>s e. form_param (req_payload r) = Some s \<and> json_loads L s = Inl e))"
  shows "(resp = HTTP_422 \<or> (\<exists>e. resp = HTTP_500 e)) \<and> (\<forall>c. resp \<noteq> HTTP_200 c)"
proof -
  from routed obtain ep where ep: "map_of routes (req_method r, req_path r) = Some ep"
    and resp: "resp = call_endpoint L g ep (req_payload r)"
    by (auto simp: app_Some_iff)
  let ?p = "req_payload r"
  from malformed consider
    (image) b where "file_param ?p = Some b"
      "(\<exists>e. Image_open L b = Inl e) \<or>
       (\<exists>img e. Image_open L b = Inr img \<and> preprocess_val g img = Inl e)"
  | (json) s e where "req_path r = ''/compute_similarity/''"
      "form_param ?p = Some s" "json_loads L s = Inl e"
    by blast
  then have err: "resp = HTTP_422 \<or> (\<exists>e. resp = HTTP_500 e)"
  proof cases
    case image
    note b = image(1) and bad = image(2)
    show ?thesis
    proof (cases ep)
      case Encode_image
      from encode_image_unparseable [OF bad] obtain e where "encode_image L g b = Inl e" ..
      with b Encode_image show ?thesis by (simp add: resp call_endpoint_def respond_Inl)
    next
      case Encode_text
      from file_param_Some_Multipart [OF b] have "body_param L ?p = None"
        by (auto simp: body_param_Multipart)
      with Encode_text show ?thesis by (simp add: resp call_endpoint_def)
    next
      case Compute_similarity
      show ?thesis
      proof (cases "form_param ?p")
        case None
        with b Compute_similarity show ?thesis by (simp add: resp call_endpoint_def)
      next
        case (Some s)
        from compute_similarity_unparseable_image [OF bad]
        obtain e where "compute_similarity L g b s = Inl e" ..
        with b Some Compute_similarity show ?thesis
          by (simp add: resp call_endpoint_def respond_Inl)
      qed
    qed
  next
    case json
    note path = json(1) and s = json(2) and bad = json(3)
    from ep path have Compute_similarity: "ep = Compute_similarity"
      by (auto simp: map_of_routes)
    show ?thesis
    proof (cases "file_param ?p")
      case None
      with Compute_similarity show ?thesis by (simp add: resp call_endpoint_def)
    next
      case (Some b)
      with s Compute_similarity compute_similarity_unparseable_json [OF bad, of g b]
      show ?thesis by (simp add: resp call_endpoint_def respond_Inl)
    qed
  qed
  then show ?thesis by auto
qed

theorem malformed_input_error_response_witness:
  "app example_libs example_globals example_bad_image_request =
     Some (HTTP_500 UnidentifiedImageError) \<and>
   (HTTP_500 UnidentifiedImageError = HTTP_422 \<or>
    (\<exists>e. HTTP_500 UnidentifiedImageError = HTTP_500 e))"
proof -
  have routed: "app example_libs example_globals example_bad_image_request =
      Some (HTTP_500 UnidentifiedImageError)"
    by (simp add: example_defs example_bad_image_request_def encode_image_def)
  have malformed:
    "(\<exists>b. file_param (req_payload example_bad_image_request) = Some b \<and>
          ((\<exists>e. Image_open example_libs b = Inl e) \<or>
           (\<exists>img e. Image_open example_libs b = Inr img \<and>
              preprocess_val example_globals img = Inl e))) \<or>
     (req_path example_bad_image_request = ''/compute_similarity/'' \<and>
      (\<exists>s e. form_param (req_payload example_bad_image_request) = Some s \<and>
         json_loads example_libs s = Inl e))"
    by (simp add: example_bad_image_request_def file_param_def example_libs_def)
  from malformed_input_error_response [OF routed malformed] routed
  show ?thesis by blast
qed

subsection \<open>C4: features are normalized before they are compared\<close>



subsection \<open>C5: labels are the input list, one probability per label\<close>

text \<open>
  Claim C5. Whenever \<^verbatim>\<open>/compute_similarity/\<close> answers with status 200, the \<^verbatim>\<open>labels\<close>
  field is the list of strings found under \<^verbatim>\<open>text_list\<close> in the parsed \<^verbatim>\<open>text_input\<close>
  field, in the same order, and the \<^verbatim>\<open>probabilities\<close> field has the same length.
\<close>

theorem similarity_labels_and_lengths:
  assumes ok: "app L g r = Some (HTTP_200 (Similarity P labels))"
  shows "(\<exists>s kvs. form_param (req_payload r) = Some s \<and> json_loads L s = Inr (JObject kvs) \<and>
            map_of kvs ''text_list'' = Some (JArray (map JString labels))) \<and>
         length P = length labels"
proof -
  from ok obtain ep where ep: "call_endpoint L g ep (req_payload r) = HTTP_200 (Similarity P labels)"
    by (auto simp: app_Some_iff)
  from call_endpoint_Similarity [OF ep] obtain s j t pix where
    s: "form_param (req_payload r) = Some s" "json_loads L s = Inr j"
    and t: "TextInput_init j = Inr t" "labels = text_list t"
    and P: "P = softmax_row
                  (map (dot (map (flt_mul (Num 100)) (normalize_row (model_encode_image g pix))))
                     (normalize_rows (map (\<lambda>x. model_encode_text g (tokenizer g x)) labels)))"
    by blast
  from t obtain kvs where "j = JObject kvs"
    "map_of kvs ''text_list'' = Some (JArray (map JString labels))"
    by (auto simp: TextInput_init_Inr)
  moreover have "length P = length labels"
    by (simp add: P length_softmax_row normalize_rows_def)
  ultimately show ?thesis using s by blast
qed

theorem similarity_labels_and_lengths_witness:
  "\<exists>P. app example_libs example_globals example_similarity_request =
          Some (HTTP_200 (Similarity P [''a'', ''b''])) \<and>
       length P = 2"
proof -
  from example_similarity_response obtain P where
    ok: "app example_libs example_globals example_similarity_request =
           Some (HTTP_200 (Similarity P [''a'', ''b'']))" ..
  from similarity_labels_and_lengths [OF ok] have "length P = 2" by simp
  with ok show ?thesis by blast
qed

subsection \<open>C6: three POST endpoints\<close>

text \<open>
  Claim C6. The application routes a request exactly when its method is POST and its path
  is one of \<^verbatim>\<open>/encode_image/\<close>, \<^verbatim>\<open>/encode_text/\<close> and \<^verbatim>\<open>/compute_similarity/\<close>. A 200
  response of \<^verbatim>\<open>/encode_image/\<close> needs a file upload and carries \<^verbatim>\<open>features\<close>, one of
  \<^verbatim>\<open>/encode_text/\<close> needs a JSON body that fits the schema and carries \<^verbatim>\<open>features\<close>, and
  one of \<^verbatim>\<open>/compute_similarity/\<close> needs a file upload and a form field and carries
  \<^verbatim>\<open>probabilities\<close> and \<^verbatim>\<open>labels\<close>.
\<close>

theorem three_post_endpoints:
  "(app L g r \<noteq> None \<longleftrightarrow>
      req_method r = POST \<and>
      req_path r \<in> {''/encode_image/'', ''/encode_text/'', ''/compute_similarity/''}) \<and>
   map fst routes =
     [(POST, ''/encode_image/''), (POST, ''/encode_text/''), (POST, ''/compute_similarity/'')] \<and>
   (app L g r = Some (HTTP_200 c) \<longrightarrow>
      (req_path r = ''/encode_image/'' \<and> (\<exists>b. file_param (req_payload r) = Some b) \<and>
         (\<exists>F. c = Features F)) \<or>
      (req_path r = ''/encode_text/'' \<and> (\<exists>t. body_param L (req_payload r) = Some t) \<and>
         (\<exists>F. c = Features F)) \<or>
      (req_path r = ''/compute_similarity/'' \<and> (\<exists>b. file_param (req_payload r) = Some b) \<and>
         (\<exists>s. form_param (req_payload r) = Some s) \<and> (\<exists>P labels. c = Similarity P labels)))"
proof (intro conjI impI)
  show "app L g r \<noteq> None \<longleftrightarrow>
      req_method r = POST \<and>
      req_path r \<in> {''/encode_image/'', ''/encode_text/'', ''/compute_similarity/''}"
  proof
    assume "app L g r \<noteq> None"
    then obtain ep where "map_of routes (req_method r, req_path r) = Some ep"
      by (auto simp: app_def)
    then show "req_method r = POST \<and>
      req_path r \<in> {''/encode_image/'', ''/encode_text/'', ''/compute_similarity/''}"
      by (auto simp: map_of_routes)
  next
    assume "req_method r = POST \<and>
      req_path r \<in> {''/encode_image/'', ''/encode_text/'', ''/compute_similarity/''}"
    then have "\<exists>ep. map_of routes (req_method r, req_path r) = Some ep"
      unfolding map_of_routes by blast
    then show "app L g r \<noteq> None" by (auto simp: app_def)
  qed
next
  show "map fst routes =
     [(POST, ''/encode_image/''), (POST, ''/encode_text/''), (POST, ''/compute_similarity/'')]"
    by (simp add: routes_def)
next
  assume "app L g r = Some (HTTP_200 c)"
  then obtain ep where ep: "map_of routes (req_method r, req_path r) = Some ep"
    and c: "call_endpoint L g ep (req_payload r) = HTTP_200 c"
    by (auto simp: app_Some_iff)
  from ep have "ep = Encode_image \<and> req_path r = ''/encode_image/'' \<or>
      ep = Encode_text \<and> req_path r = ''/encode_text/'' \<or>
      ep = Compute_similarity \<and> req_path r = ''/compute_similarity/''"
    by (auto simp: map_of_routes)
  with call_endpoint_200 [OF c]
  show "(req_path r = ''/encode_image/'' \<and> (\<exists>b. file_param (req_payload r) = Some b) \<and>
         (\<exists>F. c = Features F)) \<or>
      (req_path r = ''/encode_text/'' \<and> (\<exists>t. body_param L (req_payload r) = Some t) \<and>
         (\<exists>F. c = Features F)) \<or>
      (req_path r = ''/compute_similarity/'' \<and> (\<exists>b. file_param (req_payload r) = Some b) \<and>
         (\<exists>s. form_param (req_payload r) = Some s) \<and> (\<exists>P labels. c = Similarity P labels))"
    by auto
qed

theorem three_post_endpoints_witness:
  "app example_libs example_globals example_image_request \<noteq> None \<and>
   req_path example_image_request = ''/encode_image/'' \<and>
   (\<exists>b. file_param (req_payload example_image_request) = Some b)"
proof -
  note ep = three_post_endpoints [of example_libs example_globals example_image_request
      "Features [[Num (3 / 5), Num (4 / 5)]]"]
  have "req_method example_image_request = POST \<and>
      req_path example_image_request \<in>
        {''/encode_image/'', ''/encode_text/'', ''/compute_similarity/''}"
    by (simp add: example_image_request_def)
  with ep have routed: "app example_libs example_globals example_image_request \<noteq> None"
    by blast
  have path: "req_path example_image_request = ''/encode_image/''"
    by (simp add: example_image_request_def)
  with ep example_image_response
  have "\<exists>b. file_param (req_payload example_image_request) = Some b"
    by auto
  with routed path show ?thesis by blast
qed

subsection \<open>C7: the handlers leave the module globals unchanged\<close>



subsection \<open>C8: two paths for malformed text input\<close>

text \<open>
  Claim C8. A body sent to \<^verbatim>\<open>/encode_text/\<close> that does not fit the schema (it is not
  JSON, or not an object with a list of strings under \<^verbatim>\<open>text_list\<close>) is answered with 422,
  a response that no run of the handler produces. A \<^verbatim>\<open>text_input\<close> field sent to
  \<^verbatim>\<open>/compute_similarity/\<close> that is not parseable JSON, or that is a JSON object without the
  key \<^verbatim>\<open>text_list\<close>, makes the handler itself raise, and the exception is answered with 500.
\<close>

theorem malformed_text_two_paths:
  "(body_param L (Body st) = None \<longleftrightarrow>
      \<not> (\<exists>kvs t. json_loads L st = Inr (JObject kvs) \<and> validate_TextInput kvs = Some t)) \<and>
   (body_param L pt = None \<longrightarrow>
      call_endpoint L g Encode_text pt = HTTP_422 \<and>
      status_code (call_endpoint L g Encode_text pt) = 422 \<and>
      (\<forall>t. call_endpoint L g Encode_text pt \<noteq> respond (encode_text g t))) \<and>
   (file_param pj = Some bj \<and> form_param pj = Some sj \<and> json_loads L sj = Inl e \<longrightarrow>
      compute_similarity L g bj sj = Inl e \<and>
      call_endpoint L g Compute_similarity pj = HTTP_500 e \<and>
      status_code (call_endpoint L g Compute_similarity pj) = 500) \<and>
   (file_param pk = Some bk \<and> form_param pk = Some sk \<and>
    json_loads L sk = Inr (JObject kvs) \<and> map_of kvs ''text_list'' = None \<longrightarrow>
      compute_similarity L g bk sk = Inl ValidationError \<and>
      call_endpoint L g Compute_similarity pk = HTTP_500 ValidationError \<and>
      status_code (call_endpoint L g Compute_similarity pk) = 500)"
proof (intro conjI impI)
  show "body_param L (Body st) = None \<longleftrightarrow>
      \<not> (\<exists>kvs t. json_loads L st = Inr (JObject kvs) \<and> validate_TextInput kvs = Some t)"
    by (rule body_param_None_iff)
next
  assume "body_param L pt = None"
  then show "call_endpoint L g Encode_text pt = HTTP_422"
    and "status_code (call_endpoint L g Encode_text pt) = 422"
    and "\<forall>t. call_endpoint L g Encode_text pt \<noteq> respond (encode_text g t)"
    using respond_not_422 [symmetric] by (simp_all add: call_endpoint_def status_code_def)
next
  assume a: "file_param pj = Some bj \<and> form_param pj = Some sj \<and> json_loads L sj = Inl e"
  then show h: "compute_similarity L g bj sj = Inl e"
    by (simp add: compute_similarity_unparseable_json)
  with a show "call_endpoint L g Compute_similarity pj = HTTP_500 e"
    and "status_code (call_endpoint L g Compute_similarity pj) = 500"
    by (simp_all add: call_endpoint_def respond_Inl status_code_def)
next
  assume a: "file_param pk = Some bk \<and> form_param pk = Some sk \<and>
    json_loads L sk = Inr (JObject kvs) \<and> map_of kvs ''text_list'' = None"
  then show h: "compute_similarity L g bk sk = Inl ValidationError"
    by (simp add: compute_similarity_def TextInput_init_def validate_TextInput_missing)
  with a show "call_endpoint L g Compute_similarity pk = HTTP_500 ValidationError"
    and "status_code (call_endpoint L g Compute_similarity pk) = 500"
    by (simp_all add: call_endpoint_def respond_Inl status_code_def)
qed

theorem malformed_text_two_paths_witness:
  "call_endpoint example_libs example_globals Encode_text example_bad_body_payload = HTTP_422 \<and>
   call_endpoint example_libs example_globals Compute_similarity example_bad_json_payload =
     HTTP_500 JSONDecodeError \<and>
   call_endpoint example_libs example_globals Compute_similarity example_missing_key_payload =
     HTTP_500 ValidationError"
proof -
  have h1: "body_param example_libs example_bad_body_payload = None"
    by (simp add: body_param_def example_bad_body_payload_def example_libs_def
        validate_TextInput_def)
  have h2: "file_param example_bad_json_payload = Some ''abc'' \<and>
      form_param example_bad_json_payload = Some ''text_list'' \<and>
      json_loads example_libs ''text_list'' = Inl JSONDecodeError"
    by (simp add: file_param_def form_param_def example_bad_json_payload_def example_libs_def)
  have h3: "file_param example_missing_key_payload = Some ''abc'' \<and>
      form_param example_missing_key_payload = Some ''{}'' \<and>
      json_loads example_libs ''{}'' = Inr (JObject []) \<and> map_of [] ''text_list'' = None"
    by (simp add: file_param_def form_param_def example_missing_key_payload_def
        example_libs_def)
  from malformed_text_two_paths [where L = example_libs and g = example_globals
      and pt = example_bad_body_payload
      and pj = example_bad_json_payload and bj = "''abc''" and sj = "''text_list''"
      and e = JSONDecodeError
      and pk = example_missing_key_payload and bk = "''abc''" and sk = "''{}''"
      and kvs = "[]"] h1 h2 h3
  show ?thesis by blast
qed

subsection \<open>C10: no guard against a zero norm\<close>

text \<open>
  Claim C10. Normalizing a row yields a NaN exactly when the row is a non-empty zero
  vector, and then every entry is NaN. None of the three handlers treats that case apart:
  when the encoder returns a zero vector, \<^verbatim>\<open>encode_image\<close> and \<^verbatim>\<open>encode_text\<close> return
  features that are all NaN, and \<^verbatim>\<open>compute_similarity\<close> returns probabilities that are all
  NaN, without raising.
\<close>

theorem zero_norm_unguarded:
  "(NaN \<in> set (normalize_row v) \<longleftrightarrow> v \<noteq> [] \<and> (\<forall>x \<in> set v. x = 0)) \<and>
   ((\<forall>x \<in> set v. x = 0) \<longrightarrow> normalize_row v = replicate (length v) NaN) \<and>
   (Image_open L b = Inr img \<and> preprocess_val g img = Inr pix \<and>
    (\<forall>x \<in> set (model_encode_image g pix). x = 0) \<longrightarrow>
      encode_image L g b =
        Inr (Features [replicate (length (model_encode_image g pix)) NaN])) \<and>
   ((\<forall>x \<in> set (text_list t). \<forall>y \<in> set (model_encode_text g (tokenizer g x)). y = 0) \<longrightarrow>
      encode_text g t =
        Inr (Features (map (\<lambda>x. replicate (length (model_encode_text g (tokenizer g x))) NaN)
                         (text_list t)))) \<and>
   (json_loads L s = Inr j \<and> TextInput_init j = Inr t \<and>
    Image_open L b = Inr img \<and> preprocess_val g img = Inr pix \<and>
    (\<forall>x \<in> set (text_list t).
       length (model_encode_text g (tokenizer g x)) = length (model_encode_image g pix)) \<and>
    model_encode_image g pix \<noteq> [] \<and> (\<forall>x \<in> set (model_encode_image g pix). x = 0) \<longrightarrow>
      compute_similarity L g b s =
        Inr (Similarity (replicate (length (text_list t)) NaN) (text_list t)))"
proof (intro conjI impI)
  show "NaN \<in> set (normalize_row v) \<longleftrightarrow> v \<noteq> [] \<and> (\<forall>x \<in> set v. x = 0)"
    by (rule NaN_in_normalize_row_iff_zero)
next
  assume "\<forall>x \<in> set v. x = 0"
  then show "normalize_row v = replicate (length v) NaN" by (rule normalize_row_all_zero)
next
  assume "Image_open L b = Inr img \<and> preprocess_val g img = Inr pix \<and>
    (\<forall>x \<in> set (model_encode_image g pix). x = 0)"
  then show "encode_image L g b =
        Inr (Features [replicate (length (model_encode_image g pix)) NaN])"
    by (simp add: encode_image_Inr normalize_rows_def normalize_row_all_zero)
next
  assume "\<forall>x \<in> set (text_list t). \<forall>y \<in> set (model_encode_text g (tokenizer g x)). y = 0"
  then show "encode_text g t =
        Inr (Features (map (\<lambda>x. replicate (length (model_encode_text g (tokenizer g x))) NaN)
                         (text_list t)))"
    by (simp add: encode_text_Inr normalize_rows_def normalize_row_all_zero)
next
  assume "json_loads L s = Inr j \<and> TextInput_init j = Inr t \<and>
    Image_open L b = Inr img \<and> preprocess_val g img = Inr pix \<and>
    (\<forall>x \<in> set (text_list t).
       length (model_encode_text g (tokenizer g x)) = length (model_encode_image g pix)) \<and>
    model_encode_image g pix \<noteq> [] \<and> (\<forall>x \<in> set (model_encode_image g pix). x = 0)"
  then show "compute_similarity L g b s =
        Inr (Similarity (replicate (length (text_list t)) NaN) (text_list t))"
    by (elim conjE) (rule compute_similarity_zero_image; assumption)
qed

theorem zero_norm_unguarded_witness:
  \<open>normalize_row [0, 0] = [NaN, NaN] \<and>
   encode_image example_libs zero_globals ''abc'' = Inr (Features [[NaN, NaN]]) \<and>
   encode_text zero_globals \<lparr>text_list = [''a'', ''b'']\<rparr> =
     Inr (Features [[NaN, NaN], [NaN, NaN]]) \<and>
   compute_similarity example_libs zero_globals ''abc'' ''{"text_list": ["a", "b"]}'' =
     Inr (Similarity [NaN, NaN] [''a'', ''b''])\<close>
proof -
  let ?t = "\<lparr>text_list = [''a'', ''b'']\<rparr>"
  let ?j = "JObject [(''text_list'', JArray [JString ''a'', JString ''b''])]"
  have zero: "\<forall>x \<in> set [0, 0 :: real]. x = 0" by simp
  have image: "Image_open example_libs ''abc'' = Inr ''abc'' \<and>
      preprocess_val zero_globals ''abc'' = Inr ''abc'' \<and>
      (\<forall>x \<in> set (model_encode_image zero_globals ''abc''). x = 0)"
    by (simp add: example_libs_def zero_globals_def example_globals_def)
  have texts: "\<forall>x \<in> set (text_list ?t).
      \<forall>y \<in> set (model_encode_text zero_globals (tokenizer zero_globals x)). y = 0"
    by (simp add: zero_globals_def)
  have both: \<open>json_loads example_libs ''{"text_list": ["a", "b"]}'' = Inr ?j \<and>
      TextInput_init ?j = Inr ?t \<and>
      Image_open example_libs ''abc'' = Inr ''abc'' \<and>
      preprocess_val zero_globals ''abc'' = Inr ''abc'' \<and>
      (\<forall>x \<in> set (text_list ?t).
         length (model_encode_text zero_globals (tokenizer zero_globals x)) =
         length (model_encode_image zero_globals ''abc'')) \<and>
      model_encode_image zero_globals ''abc'' \<noteq> [] \<and>
      (\<forall>x \<in> set (model_encode_image zero_globals ''abc''). x = 0)\<close>
    by (simp add: example_libs_def zero_globals_def example_globals_def TextInput_init_def
        validate_TextInput_def)
  note facts = zero_norm_unguarded [where v = "[0, 0]" and L = example_libs and b = "''abc''"
      and img = "''abc''" and g = zero_globals and pix = "''abc''" and t = ?t
      and s = \<open>''{"text_list": ["a", "b"]}''\<close> and j = ?j]
  from facts zero have "normalize_row [0, 0] = replicate (length [0, 0 :: real]) NaN"
    by blast
  moreover from facts image have "encode_image example_libs zero_globals ''abc'' =
      Inr (Features [replicate (length (model_encode_image zero_globals ''abc'')) NaN])"
    by blast
  moreover from facts texts have "encode_text zero_globals ?t =
      Inr (Features (map (\<lambda>x. replicate
        (length (model_encode_text zero_globals (tokenizer zero_globals x))) NaN)
        (text_list ?t)))"
    by blast
  moreover from facts both
  have \<open>compute_similarity example_libs zero_globals ''abc'' ''{"text_list": ["a", "b"]}'' =
      Inr (Similarity (replicate (length (text_list ?t)) NaN) (text_list ?t))\<close>
    by blast
  ultimately show ?thesis by (simp add: zero_globals_def)
qed

end
